theory Spec2Isabelle
  imports Complex_Main
begin

section \<open>Python values\<close>

text \<open>
  The client handles decoded JSON: what \<^verbatim>\<open>response.json()\<close> and \<^verbatim>\<open>json.loads\<close> return.
  A Python \<^verbatim>\<open>dict\<close> is an association list in insertion order, read with \<open>map_of\<close>;
  a Python \<^verbatim>\<open>list\<close> is a list.
\<close>

datatype json =
    JNull
  | JBool bool
  | JInt int
  | JFloat real
  | JStr string
  | JArr "json list"
  | JObj "(string \<times> json) list"

type_synonym pydict = "(string \<times> json) list"

text \<open>
  The exceptions (all subclasses of \<^verbatim>\<open>Exception\<close>) that the two source files and the
  libraries under them raise. \<open>HTTPError\<close> is \<^verbatim>\<open>requests.HTTPError(msg, response=r)\<close>: its
  message and the status code of the response it carries. \<open>ConnectionError\<close> stands for
  a failure of the transport itself (\<^verbatim>\<open>requests.ConnectionError\<close>, \<^verbatim>\<open>aiohttp.ClientError\<close>).
  \<open>ValidationError\<close> is pydantic's wrapper around what a validator raised. The message
  of a \<^verbatim>\<open>TypeError\<close> depends on the interpreter's version and is left out.
\<close>

datatype exc =
    KeyError string
  | TypeError
  | JSONDecodeError
  | ValueError string
  | HTTPError string int
  | PyException string
  | ConnectionError string
  | ValidationError exc

text \<open>An argument with a default: left out by the caller, or given.\<close>

datatype 'a arg = Omitted | Given 'a

definition arg_or :: "'a \<Rightarrow> 'a arg \<Rightarrow> 'a" where
  "arg_or d a = (case a of Omitted \<Rightarrow> d | Given v \<Rightarrow> v)"

text \<open>\<^verbatim>\<open>str(n)\<close> of an integer, for the f-strings of the error messages.\<close>

fun str_nat :: "nat \<Rightarrow> string" where
  "str_nat n =
     (if n < 10 then [''0123456789'' ! n]
      else str_nat (n div 10) @ [''0123456789'' ! (n mod 10)])"

declare str_nat.simps [simp del]

definition str_int :: "int \<Rightarrow> string" where
  "str_int i = (if i < 0 then ''-'' @ str_nat (nat (- i)) else str_nat (nat i))"

text \<open>An f-string field holding an optional string: \<^verbatim>\<open>None\<close> prints as \<^verbatim>\<open>None\<close>.\<close>

definition str_opt :: "string option \<Rightarrow> string" where
  "str_opt s = (case s of None \<Rightarrow> ''None'' | Some t \<Rightarrow> t)"

text \<open>\<^verbatim>\<open>value[key]\<close> with a string key.\<close>

fun getitem :: "json \<Rightarrow> string \<Rightarrow> exc + json" where
  "getitem (JObj d) k = (case map_of d k of None \<Rightarrow> Inl (KeyError k) | Some v \<Rightarrow> Inr v)"
| "getitem JNull k = Inl TypeError"
| "getitem (JBool b) k = Inl TypeError"
| "getitem (JInt i) k = Inl TypeError"
| "getitem (JFloat x) k = Inl TypeError"
| "getitem (JStr s) k = Inl TypeError"
| "getitem (JArr xs) k = Inl TypeError"

text \<open>
  The elements a \<^verbatim>\<open>for\<close> loop visits: a list's items, a dict's keys, a string's
  characters; any other value is not iterable.
\<close>

fun py_iter :: "json \<Rightarrow> exc + json list" where
  "py_iter (JArr xs) = Inr xs"
| "py_iter (JObj d) = Inr (map (\<lambda>kv. JStr (fst kv)) d)"
| "py_iter (JStr s) = Inr (map (\<lambda>c. JStr [c]) s)"
| "py_iter JNull = Inl TypeError"
| "py_iter (JBool b) = Inl TypeError"
| "py_iter (JInt i) = Inl TypeError"
| "py_iter (JFloat x) = Inl TypeError"

section \<open>The HTTP exchange\<close>

text \<open>
  What the client hands to the HTTP library: \<^verbatim>\<open>requests.post(url, json=params, headers=h)\<close>
  and \<^verbatim>\<open>ClientSession(headers=h).post(url, json=params)\<close>.
\<close>

record request =
  http_method :: string
  url :: string
  headers :: "(string \<times> string) list"
  json_body :: pydict

text \<open>
  What comes back: the status code (\<^verbatim>\<open>status_code\<close> in requests, \<^verbatim>\<open>status\<close> in aiohttp),
  the reason phrase (which may be \<^verbatim>\<open>None\<close>), the URL of the response, and the body as the
  JSON decoder reads it: \<open>None\<close> when the body is not JSON text.
\<close>

record response =
  status :: int
  reason :: "string option"
  resp_url :: string
  payload :: "json option"

text \<open>
  The network: the requests sent so far, and the remote side, which answers a request
  with a response or lets the transport fail.
\<close>

record world =
  sent :: "request list"
  server :: "request \<Rightarrow> exc + response"

definition http_post :: "request \<Rightarrow> world \<Rightarrow> (exc + response) \<times> world" where
  "http_post req w = (server w req, w\<lparr>sent := sent w @ [req]\<rparr>)"

text \<open>
  \<^verbatim>\<open>Response.raise_for_status()\<close> of the requests library: an \<^verbatim>\<open>HTTPError\<close> for a status
  from 400 to 499 (client error) and from 500 to 599 (server error), nothing for any
  other status.
\<close>

definition raise_for_status :: "response \<Rightarrow> exc option" where
  "raise_for_status r =
     (if 400 \<le> status r \<and> status r < 500 then
        Some (HTTPError (str_int (status r) @ '' Client Error: '' @ str_opt (reason r)
                @ '' for url: '' @ resp_url r) (status r))
      else if 500 \<le> status r \<and> status r < 600 then
        Some (HTTPError (str_int (status r) @ '' Server Error: '' @ str_opt (reason r)
                @ '' for url: '' @ resp_url r) (status r))
      else None)"

text \<open>\<^verbatim>\<open>response.json()\<close>, and \<^verbatim>\<open>json.loads\<close> of the response's text.\<close>

definition response_json :: "response \<Rightarrow> exc + json" where
  "response_json r = (case payload r of None \<Rightarrow> Inl JSONDecodeError | Some j \<Rightarrow> Inr j)"

section \<open>DabomSearchAPIWrapper\<close>

definition DABOM_API_URL :: string where
  "DABOM_API_URL = ''https://api.dabomai.com''"

text \<open>The model's one field: the secret string.\<close>

record DabomSearchAPIWrapper =
  dabom_api_key :: string

subsection \<open>Construction\<close>

text \<open>
  \<^verbatim>\<open>langchain_core.utils.get_from_env\<close> and \<^verbatim>\<open>get_from_dict_or_env\<close>, with no default:
  a value counts when it is there and truthy (a non-empty string).
\<close>

definition get_from_env ::
  "string \<Rightarrow> string \<Rightarrow> (string \<rightharpoonup> string) \<Rightarrow> exc + string" where
  "get_from_env key env_key environ =
     (case environ env_key of
        Some v \<Rightarrow>
          if v \<noteq> [] then Inr v
          else Inl (ValueError (''Did not find '' @ key @ '', please add an environment variable `''
                 @ env_key @ ''` which contains it, or pass `'' @ key @ ''` as a named parameter.''))
      | None \<Rightarrow>
          Inl (ValueError (''Did not find '' @ key @ '', please add an environment variable `''
                 @ env_key @ ''` which contains it, or pass `'' @ key @ ''` as a named parameter.'')))"

definition get_from_dict_or_env ::
  "(string \<rightharpoonup> string) \<Rightarrow> string \<Rightarrow> string \<Rightarrow> (string \<rightharpoonup> string) \<Rightarrow> exc + string" where
  "get_from_dict_or_env data key env_key environ =
     (case data key of
        Some v \<Rightarrow> if v \<noteq> [] then Inr v else get_from_env key env_key environ
      | None \<Rightarrow> get_from_env key env_key environ)"

definition validate_environment ::
  "(string \<rightharpoonup> string) \<Rightarrow> (string \<rightharpoonup> string) \<Rightarrow> exc + (string \<rightharpoonup> string)" where
  "validate_environment values environ =
     (case get_from_dict_or_env values ''dabom_api_key'' ''DABOM_API_KEY'' environ of
        Inl e \<Rightarrow> Inl e
      | Inr k \<Rightarrow> Inr (values(''dabom_api_key'' \<mapsto> k)))"

text \<open>
  \<^verbatim>\<open>DabomSearchAPIWrapper(dabom_api_key=...)\<close> or \<^verbatim>\<open>DabomSearchAPIWrapper()\<close>: the
  pre-validator runs on the keyword arguments, pydantic wraps what it raises, and the
  field is read from the validated values.
\<close>

definition DabomSearchAPIWrapper_init ::
  "string arg \<Rightarrow> (string \<rightharpoonup> string) \<Rightarrow> exc + DabomSearchAPIWrapper" where
  "DabomSearchAPIWrapper_init key_arg environ =
     (let values = (case key_arg of Omitted \<Rightarrow> Map.empty
                                 | Given k \<Rightarrow> [''dabom_api_key'' \<mapsto> k])
      in case validate_environment values environ of
           Inl e \<Rightarrow> Inl (ValidationError e)
         | Inr vs \<Rightarrow>
             (case vs ''dabom_api_key'' of
                None \<Rightarrow> Inl (ValidationError (ValueError ''field required''))
              | Some k \<Rightarrow> Inr \<lparr>dabom_api_key = k\<rparr>))"

subsection \<open>Requests\<close>

definition get_headers :: "DabomSearchAPIWrapper \<Rightarrow> (string \<times> string) list" where
  "get_headers self =
     [(''Authorization'', ''Bearer '' @ dabom_api_key self),
      (''Content-Type'', ''application/json'')]"

text \<open>How \<^verbatim>\<open>Optional[int]\<close> is written into the JSON body.\<close>

definition json_of_max :: "int option \<Rightarrow> json" where
  "json_of_max m = (case m of None \<Rightarrow> JNull | Some n \<Rightarrow> JInt n)"

definition raw_results ::
  "DabomSearchAPIWrapper \<Rightarrow> string \<Rightarrow> int option arg \<Rightarrow> world \<Rightarrow> (exc + json) \<times> world" where
  "raw_results self query max_results_arg w =
     (let max_results = arg_or (Some 5) max_results_arg;
          params = [(''query'', JStr query), (''max_results'', json_of_max max_results)];
          (res, w') = http_post \<lparr>http_method = ''POST'', url = DABOM_API_URL @ ''/search'',
                                 headers = get_headers self, json_body = params\<rparr> w
      in case res of
           Inl e \<Rightarrow> (Inl e, w')
         | Inr response \<Rightarrow>
             (case raise_for_status response of
                Some e \<Rightarrow> (Inl e, w')
              | None \<Rightarrow> (response_json response, w')))"

definition raw_results_async ::
  "DabomSearchAPIWrapper \<Rightarrow> string \<Rightarrow> int option arg \<Rightarrow> world \<Rightarrow> (exc + json) \<times> world" where
  "raw_results_async self query max_results_arg w =
     (let max_results = arg_or (Some 5) max_results_arg;
          params = [(''api_key'', JStr (dabom_api_key self)),
                    (''query'', JStr query),
                    (''max_results'', json_of_max max_results)];
          (res_or_exc, w') = http_post \<lparr>http_method = ''POST'', url = DABOM_API_URL @ ''/search'',
                                        headers = get_headers self, json_body = params\<rparr> w
      in case res_or_exc of
           Inl e \<Rightarrow> (Inl e, w')
         | Inr res \<Rightarrow>
             if status res = 200 then (response_json res, w')
             else (Inl (PyException (''Error '' @ str_int (status res) @ '': ''
                                      @ str_opt (reason res))), w'))"

subsection \<open>Cleaning\<close>

text \<open>The loop of \<^verbatim>\<open>clean_results\<close>: \<open>cleaned\<close> is the list built so far.\<close>

fun clean_loop :: "json list \<Rightarrow> pydict list \<Rightarrow> exc + pydict list" where
  "clean_loop [] cleaned = Inr cleaned"
| "clean_loop (result # rest) cleaned =
     (case getitem result ''url'' of
        Inl e \<Rightarrow> Inl e
      | Inr u \<Rightarrow>
          (case getitem result ''content'' of
             Inl e \<Rightarrow> Inl e
           | Inr c \<Rightarrow> clean_loop rest (cleaned @ [[(''url'', u), (''content'', c)]])))"

definition clean_results :: "json \<Rightarrow> exc + pydict list" where
  "clean_results results =
     (case py_iter results of Inl e \<Rightarrow> Inl e | Inr items \<Rightarrow> clean_loop items [])"

definition results ::
  "DabomSearchAPIWrapper \<Rightarrow> string \<Rightarrow> int option arg \<Rightarrow> world \<Rightarrow> (exc + pydict list) \<times> world" where
  "results self query max_results_arg w =
     (let max_results = arg_or (Some 5) max_results_arg;
          (raw, w') = raw_results self query (Given max_results) w
      in case raw of
           Inl e \<Rightarrow> (Inl e, w')
         | Inr raw_search_results \<Rightarrow>
             (case getitem raw_search_results ''results'' of
                Inl e \<Rightarrow> (Inl e, w')
              | Inr rs \<Rightarrow> (clean_results rs, w')))"

definition results_async ::
  "DabomSearchAPIWrapper \<Rightarrow> string \<Rightarrow> int option arg \<Rightarrow> world \<Rightarrow> (exc + pydict list) \<times> world" where
  "results_async self query max_results_arg w =
     (let max_results = arg_or (Some 5) max_results_arg;
          (raw, w') = raw_results_async self query (Given max_results) w
      in case raw of
           Inl e \<Rightarrow> (Inl e, w')
         | Inr results_json \<Rightarrow>
             (case getitem results_json ''results'' of
                Inl e \<Rightarrow> (Inl e, w')
              | Inr rs \<Rightarrow> (clean_results rs, w')))"

section \<open>DabomSearchResults\<close>

text \<open>
  The tool: its name, the client and the configured \<open>max_results\<close>. (The description is
  Korean text that no operation reads, and is left out.)
\<close>

record DabomSearchResults =
  name :: string
  api_wrapper :: DabomSearchAPIWrapper
  max_results :: int

text \<open>
  Construction: \<open>api_wrapper\<close> defaults to a client built with no argument
  (\<^verbatim>\<open>default_factory=DabomSearchAPIWrapper\<close>), \<open>max_results\<close> to 5.
\<close>

definition DabomSearchResults_init ::
  "DabomSearchAPIWrapper arg \<Rightarrow> int arg \<Rightarrow> (string \<rightharpoonup> string) \<Rightarrow> exc + DabomSearchResults" where
  "DabomSearchResults_init wrapper_arg max_arg environ =
     (case (case wrapper_arg of
              Omitted \<Rightarrow> DabomSearchAPIWrapper_init Omitted environ
            | Given a \<Rightarrow> Inr a) of
        Inl e \<Rightarrow> Inl e
      | Inr a \<Rightarrow> Inr \<lparr>name = ''tavily_search_results_json'', api_wrapper = a,
                       max_results = arg_or 5 max_arg\<rparr>)"

text \<open>What the tool returns: the cleaned list, or a string.\<close>

datatype tool_output = ResultList "pydict list" | Text string

text \<open>
  \<^verbatim>\<open>_run\<close> and \<^verbatim>\<open>_arun\<close>. \<open>py_repr\<close> is Python's \<^verbatim>\<open>repr\<close> on exceptions, a built-in taken
  as a parameter. \<^verbatim>\<open>except Exception\<close> catches every value of \<open>exc\<close>.
\<close>

definition run ::
  "(exc \<Rightarrow> string) \<Rightarrow> DabomSearchResults \<Rightarrow> string \<Rightarrow> world \<Rightarrow> tool_output \<times> world" where
  "run py_repr self query w =
     (case results (api_wrapper self) query (Given (Some (max_results self))) w of
        (Inr rs, w') \<Rightarrow> (ResultList rs, w')
      | (Inl e, w') \<Rightarrow> (Text (py_repr e), w'))"

definition arun ::
  "(exc \<Rightarrow> string) \<Rightarrow> DabomSearchResults \<Rightarrow> string \<Rightarrow> world \<Rightarrow> tool_output \<times> world" where
  "arun py_repr self query w =
     (case results_async (api_wrapper self) query (Given (Some (max_results self))) w of
        (Inr rs, w') \<Rightarrow> (ResultList rs, w')
      | (Inl e, w') \<Rightarrow> (Text (py_repr e), w'))"

section \<open>Specification vocabulary and example inputs\<close>

text \<open>A remote side that answers every request with the same response, and one whose
  transport always fails.\<close>

definition replying :: "response \<Rightarrow> request \<Rightarrow> exc + response" where
  "replying resp req = Inr resp"

definition failing :: "exc \<Rightarrow> request \<Rightarrow> exc + response" where
  "failing e req = Inl e"

text \<open>A result record that has both fields the cleaning reads.\<close>

fun has_url_content :: "json \<Rightarrow> bool" where
  "has_url_content (JObj d) = (map_of d ''url'' \<noteq> None \<and> map_of d ''content'' \<noteq> None)"
| "has_url_content JNull = False"
| "has_url_content (JBool b) = False"
| "has_url_content (JInt i) = False"
| "has_url_content (JFloat x) = False"
| "has_url_content (JStr s) = False"
| "has_url_content (JArr xs) = False"

text \<open>A result record: a JSON object.\<close>

fun is_record :: "json \<Rightarrow> bool" where
  "is_record (JObj d) = True"
| "is_record JNull = False"
| "is_record (JBool b) = False"
| "is_record (JInt i) = False"
| "is_record (JFloat x) = False"
| "is_record (JStr s) = False"
| "is_record (JArr xs) = False"

text \<open>
  The cleaned record of a raw record, as the data model words it: exactly the two fields
  \<open>url\<close> and \<open>content\<close>, with the raw record's values.
\<close>

fun projects :: "json \<Rightarrow> pydict \<Rightarrow> bool" where
  "projects (JObj d) y =
     (case map_of d ''url'' of
        None \<Rightarrow> False
      | Some u \<Rightarrow>
          (case map_of d ''content'' of
             None \<Rightarrow> False
           | Some c \<Rightarrow> y = [(''url'', u), (''content'', c)]))"
| "projects JNull y = False"
| "projects (JBool b) y = False"
| "projects (JInt i) y = False"
| "projects (JFloat x) y = False"
| "projects (JStr s) y = False"
| "projects (JArr xs) y = False"

text \<open>Concrete inputs for the examples.\<close>

definition example_client :: DabomSearchAPIWrapper where
  "example_client = \<lparr>dabom_api_key = ''secret''\<rparr>"

definition fresh_world :: "(request \<Rightarrow> exc + response) \<Rightarrow> world" where
  "fresh_world srv = \<lparr>sent = [], server = srv\<rparr>"

definition reply :: "int \<Rightarrow> string \<Rightarrow> json option \<Rightarrow> response" where
  "reply code phrase body =
     \<lparr>status = code, reason = Some phrase, resp_url = ''https://api.dabomai.com/search'',
      payload = body\<rparr>"

definition two_records :: "json list" where
  "two_records =
     [JObj [(''url'', JStr ''https://x.test''), (''content'', JStr ''hello''),
            (''title'', JStr ''t''), (''score'', JFloat 0.9)],
      JObj [(''title'', JStr ''u''), (''content'', JStr ''bye''),
            (''url'', JStr ''https://y.test'')]]"

definition two_hits :: json where
  "two_hits = JObj [(''results'', JArr two_records)]"

text \<open>The request both paths build, up to the JSON body.\<close>

definition search_request :: "DabomSearchAPIWrapper \<Rightarrow> pydict \<Rightarrow> request" where
  "search_request self params =
     \<lparr>http_method = ''POST'', url = ''https://api.dabomai.com/search'',
      headers = get_headers self, json_body = params\<rparr>"

text \<open>
  A response object that lacks what the cleaning needs: no \<open>results\<close> field, or a record of
  the \<open>results\<close> list without \<open>url\<close> or \<open>content\<close>.
\<close>

definition lacks_expected_fields :: "pydict \<Rightarrow> bool" where
  "lacks_expected_fields obj =
     (case map_of obj ''results'' of
        None \<Rightarrow> True
      | Some (JArr rs) \<Rightarrow> \<not> list_all has_url_content rs
      | Some _ \<Rightarrow> False)"

text \<open>
  The shape the data model gives a response object: its \<open>results\<close> field, when there is
  one, is a list of records.
\<close>

definition results_shape :: "pydict \<Rightarrow> bool" where
  "results_shape obj =
     (case map_of obj ''results'' of
        None \<Rightarrow> True
      | Some (JArr rs) \<Rightarrow> list_all is_record rs
      | Some _ \<Rightarrow> False)"

text \<open>The class name of an exception: a simple stand-in for \<^verbatim>\<open>repr\<close> in the examples.\<close>

fun class_name :: "exc \<Rightarrow> string" where
  "class_name (KeyError k) = ''KeyError''"
| "class_name TypeError = ''TypeError''"
| "class_name JSONDecodeError = ''JSONDecodeError''"
| "class_name (ValueError m) = ''ValueError''"
| "class_name (HTTPError m c) = ''HTTPError''"
| "class_name (PyException m) = ''Exception''"
| "class_name (ConnectionError m) = ''ConnectionError''"
| "class_name (ValidationError e) = ''ValidationError''"

text \<open>The tool as \<^verbatim>\<open>DabomSearchResults(api_wrapper=example_client)\<close> builds it.\<close>

definition example_tool :: DabomSearchResults where
  "example_tool = \<lparr>name = ''tavily_search_results_json'', api_wrapper = example_client,
                    max_results = 5\<rparr>"

section \<open>Basic facts about the operations\<close>

lemma arg_or_Given [simp]: "arg_or d (Given v) = v"
  by (simp add: arg_or_def)

lemma arg_or_Omitted [simp]: "arg_or d Omitted = d"
  by (simp add: arg_or_def)

lemma raw_results_default:
  "raw_results self q (Given (arg_or (Some 5) m)) w = raw_results self q m w"
  by (simp add: raw_results_def)

lemma raw_results_async_default:
  "raw_results_async self q (Given (arg_or (Some 5) m)) w = raw_results_async self q m w"
  by (simp add: raw_results_async_def)

lemma results_via_raw:
  "results self q m w =
     (case raw_results self q m w of
        (Inl e, w') \<Rightarrow> (Inl e, w')
      | (Inr raw, w') \<Rightarrow>
          (case getitem raw ''results'' of
             Inl e \<Rightarrow> (Inl e, w')
           | Inr rs \<Rightarrow> (clean_results rs, w')))"
  by (simp add: results_def raw_results_default split: prod.splits sum.splits)

lemma results_async_via_raw:
  "results_async self q m w =
     (case raw_results_async self q m w of
        (Inl e, w') \<Rightarrow> (Inl e, w')
      | (Inr raw, w') \<Rightarrow>
          (case getitem raw ''results'' of
             Inl e \<Rightarrow> (Inl e, w')
           | Inr rs \<Rightarrow> (clean_results rs, w')))"
  by (simp add: results_async_def raw_results_async_default split: prod.splits sum.splits)

lemma clean_loop_projects:
  "list_all has_url_content xs \<Longrightarrow>
     \<exists>ys. clean_loop xs acc = Inr (acc @ ys) \<and> list_all2 projects xs ys"
proof (induction xs arbitrary: acc)
  case Nil
  then show ?case by simp
next
  case (Cons x xs)
  from Cons.prems have hx: "has_url_content x" and hxs: "list_all has_url_content xs"
    by simp_all
  from hx obtain d u c where x: "x = JObj d"
    and u: "map_of d ''url'' = Some u" and c: "map_of d ''content'' = Some c"
    by (cases x) auto
  from Cons.IH [OF hxs, of "acc @ [[(''url'', u), (''content'', c)]]"]
  obtain ys where ys: "clean_loop xs (acc @ [[(''url'', u), (''content'', c)]])
      = Inr ((acc @ [[(''url'', u), (''content'', c)]]) @ ys)"
    and p: "list_all2 projects xs ys"
    by blast
  have "clean_loop (x # xs) acc = Inr (acc @ ([(''url'', u), (''content'', c)] # ys))"
    using x u c ys by simp
  moreover have "list_all2 projects (x # xs) ([(''url'', u), (''content'', c)] # ys)"
    using x u c p by simp
  ultimately show ?case by blast
qed

lemma clean_loop_key_error:
  "list_all is_record xs \<Longrightarrow> \<not> list_all has_url_content xs \<Longrightarrow>
     \<exists>k. clean_loop xs acc = Inl (KeyError k)"
proof (induction xs arbitrary: acc)
  case Nil
  then show ?case by simp
next
  case (Cons x xs)
  from Cons.prems(1) obtain d where x: "x = JObj d" and rs: "list_all is_record xs"
    by (cases x) auto
  show ?case
  proof (cases "has_url_content x")
    case True
    with Cons.prems(2) have "\<not> list_all has_url_content xs" by simp
    from Cons.IH [OF rs this] True x show ?thesis by auto
  next
    case False
    with x show ?thesis by (auto split: option.splits)
  qed
qed

lemma clean_results_projects:
  "list_all has_url_content rs \<Longrightarrow>
     \<exists>ys. clean_results (JArr rs) = Inr ys \<and> list_all2 projects rs ys"
  using clean_loop_projects [of rs "[]"] by (simp add: clean_results_def)

lemma clean_results_key_error:
  "list_all is_record rs \<Longrightarrow> \<not> list_all has_url_content rs \<Longrightarrow>
     \<exists>k. clean_results (JArr rs) = Inl (KeyError k)"
  using clean_loop_key_error [of rs "[]"] by (simp add: clean_results_def)

lemma raw_results_fst:
  "fst (raw_results self q m w) =
     (case server w (search_request self
             [(''query'', JStr q), (''max_results'', json_of_max (arg_or (Some 5) m))]) of
        Inl e \<Rightarrow> Inl e
      | Inr resp \<Rightarrow>
          (case raise_for_status resp of Some e \<Rightarrow> Inl e | None \<Rightarrow> response_json resp))"
  by (simp add: raw_results_def Let_def http_post_def search_request_def DABOM_API_URL_def
      split: sum.splits option.splits)

lemma raw_results_snd:
  "snd (raw_results self q m w) =
     w\<lparr>sent := sent w @ [search_request self
             [(''query'', JStr q), (''max_results'', json_of_max (arg_or (Some 5) m))]]\<rparr>"
  by (simp add: raw_results_def Let_def http_post_def search_request_def DABOM_API_URL_def
      split: sum.splits option.splits)

lemma raw_results_async_fst:
  "fst (raw_results_async self q m w) =
     (case server w (search_request self
             [(''api_key'', JStr (dabom_api_key self)), (''query'', JStr q),
              (''max_results'', json_of_max (arg_or (Some 5) m))]) of
        Inl e \<Rightarrow> Inl e
      | Inr res \<Rightarrow>
          if status res = 200 then response_json res
          else Inl (PyException (''Error '' @ str_int (status res) @ '': ''
                                  @ str_opt (reason res))))"
  by (simp add: raw_results_async_def Let_def http_post_def search_request_def DABOM_API_URL_def
      split: sum.splits)

lemma raw_results_async_snd:
  "snd (raw_results_async self q m w) =
     w\<lparr>sent := sent w @ [search_request self
             [(''api_key'', JStr (dabom_api_key self)), (''query'', JStr q),
              (''max_results'', json_of_max (arg_or (Some 5) m))]]\<rparr>"
  by (simp add: raw_results_async_def Let_def http_post_def search_request_def DABOM_API_URL_def
      split: sum.splits)

lemma results_fst:
  "fst (results self q m w) =
     (case fst (raw_results self q m w) of
        Inl e \<Rightarrow> Inl e
      | Inr raw \<Rightarrow>
          (case getitem raw ''results'' of Inl e \<Rightarrow> Inl e | Inr rs \<Rightarrow> clean_results rs))"
  by (simp add: results_via_raw split: prod.splits sum.splits)

lemma results_snd: "snd (results self q m w) = snd (raw_results self q m w)"
  by (simp add: results_via_raw split: prod.splits sum.splits)

lemma results_async_fst:
  "fst (results_async self q m w) =
     (case fst (raw_results_async self q m w) of
        Inl e \<Rightarrow> Inl e
      | Inr raw \<Rightarrow>
          (case getitem raw ''results'' of Inl e \<Rightarrow> Inl e | Inr rs \<Rightarrow> clean_results rs))"
  by (simp add: results_async_via_raw split: prod.splits sum.splits)

lemma results_async_snd:
  "snd (results_async self q m w) = snd (raw_results_async self q m w)"
  by (simp add: results_async_via_raw split: prod.splits sum.splits)

lemma cleaned_of_raw:
  assumes "map_of obj ''results'' = Some (JArr rs)" and "list_all has_url_content rs"
  shows "\<exists>ys. (case getitem (JObj obj) ''results'' of
                  Inl e \<Rightarrow> Inl e | Inr v \<Rightarrow> clean_results v) = Inr ys
              \<and> list_all2 projects rs ys"
  using assms clean_results_projects [of rs] by simp

lemmas eval_defs =
  raw_results_fst raw_results_async_fst results_fst results_async_fst
  raw_results_snd raw_results_async_snd results_snd results_async_snd
  search_request_def get_headers_def json_of_max_def raise_for_status_def response_json_def
  clean_results_def replying_def failing_def fresh_world_def reply_def example_client_def

lemma raw_sync_two_hits:
  "fst (raw_results example_client ''q'' Omitted (fresh_world (replying (reply 200 ''OK'' (Some two_hits)))))
     = Inr two_hits"
  by (simp add: eval_defs)

lemma raw_async_two_hits:
  "fst (raw_results_async example_client ''q'' Omitted (fresh_world (replying (reply 200 ''OK'' (Some two_hits)))))
     = Inr two_hits"
  by (simp add: eval_defs)

lemma raw_results_replied:
  assumes "\<And>req. server w req = Inr resp"
  shows "fst (raw_results self q m w) =
           (case raise_for_status resp of Some e \<Rightarrow> Inl e | None \<Rightarrow> response_json resp)"
  using assms by (simp add: raw_results_fst)

lemma raw_results_async_replied:
  assumes "\<And>req. server w req = Inr resp"
  shows "fst (raw_results_async self q m w) =
           (if status resp = 200 then response_json resp
            else Inl (PyException (''Error '' @ str_int (status resp) @ '': ''
                                    @ str_opt (reason resp))))"
  using assms by (simp add: raw_results_async_fst)

lemma raise_for_status_None_iff:
  "raise_for_status r = None \<longleftrightarrow> \<not> (400 \<le> status r \<and> status r < 600)"
  by (auto simp add: raise_for_status_def)

lemma raise_for_status_carries_status:
  "raise_for_status r = Some e \<Longrightarrow> \<exists>msg. e = HTTPError msg (status r)"
  by (auto simp add: raise_for_status_def split: if_splits)

lemma getitem_results_clean:
  assumes "results_shape obj"
  shows "(\<exists>k. (case getitem (JObj obj) ''results'' of
                  Inl e \<Rightarrow> Inl e | Inr v \<Rightarrow> clean_results v) = Inl (KeyError k))
           \<longleftrightarrow> lacks_expected_fields obj"
    and "(\<exists>ys. (case getitem (JObj obj) ''results'' of
                  Inl e \<Rightarrow> Inl e | Inr v \<Rightarrow> clean_results v) = Inr ys)
           \<longleftrightarrow> \<not> lacks_expected_fields obj"
proof -
  consider (none) "map_of obj ''results'' = None"
    | (arr) rs where "map_of obj ''results'' = Some (JArr rs)" "list_all is_record rs"
    using assms by (auto simp add: results_shape_def split: option.splits json.splits)
  then have "((\<exists>k. (case getitem (JObj obj) ''results'' of
                  Inl e \<Rightarrow> Inl e | Inr v \<Rightarrow> clean_results v) = Inl (KeyError k))
           \<longleftrightarrow> lacks_expected_fields obj)
     \<and> ((\<exists>ys. (case getitem (JObj obj) ''results'' of
                  Inl e \<Rightarrow> Inl e | Inr v \<Rightarrow> clean_results v) = Inr ys)
           \<longleftrightarrow> \<not> lacks_expected_fields obj)"
  proof cases
    case none
    then show ?thesis by (simp add: lacks_expected_fields_def)
  next
    case arr
    show ?thesis
    proof (cases "list_all has_url_content rs")
      case True
      with clean_results_projects [of rs] arr show ?thesis
        by (auto simp add: lacks_expected_fields_def)
    next
      case False
      with clean_results_key_error [of rs] arr show ?thesis
        by (auto simp add: lacks_expected_fields_def)
    qed
  qed
  then show "(\<exists>k. (case getitem (JObj obj) ''results'' of
                  Inl e \<Rightarrow> Inl e | Inr v \<Rightarrow> clean_results v) = Inl (KeyError k))
           \<longleftrightarrow> lacks_expected_fields obj"
    and "(\<exists>ys. (case getitem (JObj obj) ''results'' of
                  Inl e \<Rightarrow> Inl e | Inr v \<Rightarrow> clean_results v) = Inr ys)
           \<longleftrightarrow> \<not> lacks_expected_fields obj"
    by blast+
qed

lemma replying_server [simp]: "server (fresh_world (replying resp)) req = Inr resp"
  by (simp add: fresh_world_def replying_def)

lemma failing_server [simp]: "server (fresh_world (failing e)) req = Inl e"
  by (simp add: fresh_world_def failing_def)

lemma reply_fields [simp]:
  "status (reply code phrase body) = code"
  "reason (reply code phrase body) = Some phrase"
  "resp_url (reply code phrase body) = ''https://api.dabomai.com/search''"
  "payload (reply code phrase body) = body"
  by (simp_all add: reply_def)

lemma run_snd:
  "snd (run py_repr self q w) =
     snd (results (api_wrapper self) q (Given (Some (max_results self))) w)"
  by (simp add: run_def split: prod.splits sum.splits)

lemma arun_snd:
  "snd (arun py_repr self q w) =
     snd (results_async (api_wrapper self) q (Given (Some (max_results self))) w)"
  by (simp add: arun_def split: prod.splits sum.splits)

lemma sent_max_results:
  "map_of (json_body (last (sent (snd (raw_results self q m w))))) ''max_results''
     = Some (json_of_max (arg_or (Some 5) m))"
  "map_of (json_body (last (sent (snd (raw_results_async self q m w))))) ''max_results''
     = Some (json_of_max (arg_or (Some 5) m))"
  "map_of (json_body (last (sent (snd (results self q m w))))) ''max_results''
     = Some (json_of_max (arg_or (Some 5) m))"
  "map_of (json_body (last (sent (snd (results_async self q m w))))) ''max_results''
     = Some (json_of_max (arg_or (Some 5) m))"
  by (simp_all add: results_snd results_async_snd raw_results_snd raw_results_async_snd
      search_request_def)

lemma omitted_is_five:
  "raw_results self q Omitted w = raw_results self q (Given (Some 5)) w"
  "raw_results_async self q Omitted w = raw_results_async self q (Given (Some 5)) w"
  "results self q Omitted w = results self q (Given (Some 5)) w"
  "results_async self q Omitted w = results_async self q (Given (Some 5)) w"
  by (simp_all add: raw_results_def raw_results_async_def results_def results_async_def)

section \<open>Properties of the client and the tool\<close>

subsection \<open>Cleaning keeps every record\<close>

text \<open>
  Claim C1. When the raw response is an object whose \<open>results\<close> field is a list of \<open>N\<close>
  records that each have \<open>url\<close> and \<open>content\<close>, \<open>results\<close> and \<open>results_async\<close> return
  exactly \<open>N\<close> cleaned records in the order of the raw list, the \<open>i\<close>-th being exactly the
  two fields \<open>url\<close> and \<open>content\<close> of the \<open>i\<close>-th raw record: nothing is dropped, added,
  merged or filtered.
\<close>

theorem results_keep_every_record:
  assumes "map_of obj ''results'' = Some (JArr rs)"
    and "list_all has_url_content rs"
  shows "(fst (raw_results self q m w) = Inr (JObj obj) \<longrightarrow>
            (\<exists>ys. fst (results self q m w) = Inr ys \<and> length ys = length rs
                  \<and> list_all2 projects rs ys))
       \<and> (fst (raw_results_async self q m w) = Inr (JObj obj) \<longrightarrow>
            (\<exists>ys. fst (results_async self q m w) = Inr ys \<and> length ys = length rs
                  \<and> list_all2 projects rs ys))"
proof -
  from cleaned_of_raw [OF assms] obtain ys
    where ys: "(case getitem (JObj obj) ''results'' of
                  Inl e \<Rightarrow> Inl e | Inr v \<Rightarrow> clean_results v) = Inr ys"
      and p: "list_all2 projects rs ys"
    by blast
  from p have len: "length ys = length rs"
    by (simp add: list_all2_lengthD)
  have "fst (raw_results self q m w) = Inr (JObj obj) \<Longrightarrow> fst (results self q m w) = Inr ys"
    using ys by (simp add: results_fst)
  moreover have "fst (raw_results_async self q m w) = Inr (JObj obj) \<Longrightarrow>
      fst (results_async self q m w) = Inr ys"
    using ys by (simp add: results_async_fst)
  ultimately show ?thesis using p len by blast
qed

theorem results_keep_every_record_witness:
  "fst (results example_client ''q'' Omitted
          (fresh_world (replying (reply 200 ''OK'' (Some two_hits)))))
     = Inr [[(''url'', JStr ''https://x.test''), (''content'', JStr ''hello'')],
            [(''url'', JStr ''https://y.test''), (''content'', JStr ''bye'')]]
   \<and> fst (results_async example_client ''q'' Omitted
          (fresh_world (replying (reply 200 ''OK'' (Some two_hits)))))
     = Inr [[(''url'', JStr ''https://x.test''), (''content'', JStr ''hello'')],
            [(''url'', JStr ''https://y.test''), (''content'', JStr ''bye'')]]"
proof -
  let ?w = "fresh_world (replying (reply 200 ''OK'' (Some two_hits)))"
  have a: "map_of [(''results'', JArr two_records)] ''results'' = Some (JArr two_records)"
    by simp
  have b: "list_all has_url_content two_records"
    by (simp add: two_records_def)
  have c: "fst (raw_results example_client ''q'' Omitted ?w)
      = Inr (JObj [(''results'', JArr two_records)])"
    using raw_sync_two_hits by (simp add: two_hits_def)
  have d: "fst (raw_results_async example_client ''q'' Omitted ?w)
      = Inr (JObj [(''results'', JArr two_records)])"
    using raw_async_two_hits by (simp add: two_hits_def)
  from results_keep_every_record [OF a b, of example_client "''q''" Omitted ?w] c d
  obtain ys zs where
    ys: "fst (results example_client ''q'' Omitted ?w) = Inr ys"
        "list_all2 projects two_records ys"
    and zs: "fst (results_async example_client ''q'' Omitted ?w) = Inr zs"
        "list_all2 projects two_records zs"
    by blast
  from ys(2) have "ys = [[(''url'', JStr ''https://x.test''), (''content'', JStr ''hello'')],
            [(''url'', JStr ''https://y.test''), (''content'', JStr ''bye'')]]"
    by (auto simp add: two_records_def list_all2_Cons1)
  moreover from zs(2) have "zs = [[(''url'', JStr ''https://x.test''), (''content'', JStr ''hello'')],
            [(''url'', JStr ''https://y.test''), (''content'', JStr ''bye'')]]"
    by (auto simp add: two_records_def list_all2_Cons1)
  ultimately show ?thesis using ys(1) zs(1) by simp
qed

subsection \<open>Request bodies\<close>

text \<open>
  Claim C2. Both paths send one POST to \<open>https://api.dabomai.com/search\<close> with the headers
  \<open>Authorization: Bearer <key>\<close> and \<open>Content-Type: application/json\<close>. The body of the
  synchronous path has exactly the keys \<open>query\<close> and \<open>max_results\<close>. The body of the
  asynchronous path has a third key, \<open>api_key\<close>, holding the credential: there the
  credential travels in the body as well as in the header.
\<close>

theorem async_body_carries_api_key:
  "sent (snd (raw_results self q m w)) =
     sent w @ [\<lparr>http_method = ''POST'', url = ''https://api.dabomai.com/search'',
                headers = [(''Authorization'', ''Bearer '' @ dabom_api_key self),
                           (''Content-Type'', ''application/json'')],
                json_body = [(''query'', JStr q),
                             (''max_results'', json_of_max (arg_or (Some 5) m))]\<rparr>]
   \<and> sent (snd (raw_results_async self q m w)) =
     sent w @ [\<lparr>http_method = ''POST'', url = ''https://api.dabomai.com/search'',
                headers = [(''Authorization'', ''Bearer '' @ dabom_api_key self),
                           (''Content-Type'', ''application/json'')],
                json_body = [(''api_key'', JStr (dabom_api_key self)),
                             (''query'', JStr q),
                             (''max_results'', json_of_max (arg_or (Some 5) m))]\<rparr>]"
  by (simp add: raw_results_snd raw_results_async_snd search_request_def get_headers_def)

theorem async_body_carries_api_key_witness:
  "map fst (json_body (last (sent (snd (raw_results example_client ''q'' Omitted
       (fresh_world (replying (reply 200 ''OK'' (Some two_hits)))))))))
     = [''query'', ''max_results'']
   \<and> map fst (json_body (last (sent (snd (raw_results_async example_client ''q'' Omitted
       (fresh_world (replying (reply 200 ''OK'' (Some two_hits)))))))))
     = [''api_key'', ''query'', ''max_results'']
   \<and> map_of (json_body (last (sent (snd (raw_results_async example_client ''q'' Omitted
       (fresh_world (replying (reply 200 ''OK'' (Some two_hits))))))))) ''api_key''
     = Some (JStr ''secret'')"
  using async_body_carries_api_key
    [of example_client "''q''" Omitted "fresh_world (replying (reply 200 ''OK'' (Some two_hits)))"]
  by (simp add: example_client_def fresh_world_def)

subsection \<open>The tool reports failures as text\<close>

text \<open>
  Claim C3. \<open>_run\<close> and \<open>_arun\<close> always return a value: when the client fails with an
  exception \<open>e\<close> (whatever its kind) the output is the string \<open>repr(e)\<close>, and when the client
  returns a cleaned list the output is that list.
\<close>

theorem tool_reports_failures_in_band:
  "fst (run py_repr self q w) =
     (case fst (results (api_wrapper self) q (Given (Some (max_results self))) w) of
        Inl e \<Rightarrow> Text (py_repr e)
      | Inr ys \<Rightarrow> ResultList ys)
   \<and> fst (arun py_repr self q w) =
     (case fst (results_async (api_wrapper self) q (Given (Some (max_results self))) w) of
        Inl e \<Rightarrow> Text (py_repr e)
      | Inr ys \<Rightarrow> ResultList ys)"
  by (simp add: run_def arun_def split: prod.splits sum.splits)

theorem tool_reports_failures_in_band_witness:
  "fst (run class_name example_tool ''q'' (fresh_world (failing (ConnectionError ''refused''))))
     = Text ''ConnectionError''
   \<and> fst (arun class_name example_tool ''q'' (fresh_world (failing (ConnectionError ''refused''))))
     = Text ''ConnectionError''
   \<and> fst (run class_name example_tool ''q''
        (fresh_world (replying (reply 404 ''Not Found'' None))))
     = Text ''HTTPError''
   \<and> fst (arun class_name example_tool ''q''
        (fresh_world (replying (reply 200 ''OK'' (Some (JObj []))))))
     = Text ''KeyError''
   \<and> fst (run class_name example_tool ''q''
        (fresh_world (replying (reply 200 ''OK'' (Some two_hits)))))
     = ResultList [[(''url'', JStr ''https://x.test''), (''content'', JStr ''hello'')],
                   [(''url'', JStr ''https://y.test''), (''content'', JStr ''bye'')]]"
  using tool_reports_failures_in_band
      [of class_name example_tool "''q''" "fresh_world (failing (ConnectionError ''refused''))"]
    tool_reports_failures_in_band
      [of class_name example_tool "''q''" "fresh_world (replying (reply 404 ''Not Found'' None))"]
    tool_reports_failures_in_band
      [of class_name example_tool "''q''" "fresh_world (replying (reply 200 ''OK'' (Some (JObj []))))"]
    tool_reports_failures_in_band
      [of class_name example_tool "''q''" "fresh_world (replying (reply 200 ''OK'' (Some two_hits)))"]
  by (simp add: eval_defs example_tool_def two_hits_def two_records_def)

subsection \<open>The asynchronous status check\<close>

text \<open>
  Claim C4. When the remote side answers, \<open>raw_results_async\<close> decodes the body if the
  status is exactly 200, and for every other status (201 and 204 included) fails with
  \<open>Exception("Error <status>: <reason>")\<close>. So for a response whose body is JSON it succeeds
  if and only if the status is 200, and then returns the parsed body.
\<close>

theorem raw_results_async_only_200:
  assumes "\<And>req. server w req = Inr resp"
  shows "(status resp = 200 \<longrightarrow> fst (raw_results_async self q m w) = response_json resp)
       \<and> (status resp \<noteq> 200 \<longrightarrow>
            fst (raw_results_async self q m w) =
              Inl (PyException (''Error '' @ str_int (status resp) @ '': ''
                                 @ str_opt (reason resp))))
       \<and> (payload resp = Some j \<longrightarrow>
            ((\<exists>v. fst (raw_results_async self q m w) = Inr v) \<longleftrightarrow> status resp = 200)
            \<and> (status resp = 200 \<longrightarrow> fst (raw_results_async self q m w) = Inr j))"
  using raw_results_async_replied [OF assms, of self q m]
  by (simp add: response_json_def)

theorem raw_results_async_only_200_witness:
  "fst (raw_results_async example_client ''q'' Omitted
         (fresh_world (replying (reply 200 ''OK'' (Some two_hits))))) = Inr two_hits
   \<and> fst (raw_results_async example_client ''q'' Omitted
         (fresh_world (replying (reply 201 ''Created'' (Some two_hits)))))
       = Inl (PyException ''Error 201: Created'')
   \<and> fst (raw_results_async example_client ''q'' Omitted
         (fresh_world (replying (reply 404 ''Not Found'' (Some two_hits)))))
       = Inl (PyException ''Error 404: Not Found'')"
  using raw_results_async_only_200
      [of "fresh_world (replying (reply 200 ''OK'' (Some two_hits)))"
          "reply 200 ''OK'' (Some two_hits)" example_client "''q''" Omitted two_hits]
    raw_results_async_only_200
      [of "fresh_world (replying (reply 201 ''Created'' (Some two_hits)))"
          "reply 201 ''Created'' (Some two_hits)" example_client "''q''" Omitted two_hits]
    raw_results_async_only_200
      [of "fresh_world (replying (reply 404 ''Not Found'' (Some two_hits)))"
          "reply 404 ''Not Found'' (Some two_hits)" example_client "''q''" Omitted two_hits]
  by (simp add: str_int_def str_nat.simps str_opt_def response_json_def)

subsection \<open>The synchronous status check\<close>

text \<open>
  Claim C5, as the code has it. When the remote side answers with a status in the 2xx range,
  \<open>raw_results\<close> returns the decoded body: the parsed JSON when the body is JSON text. When
  it answers with a status from 400 to 599, \<open>raw_results\<close> fails with the \<open>HTTPError\<close> of
  \<open>raise_for_status\<close>, which carries the status code, and \<open>results\<close> fails with the same
  error.
\<close>

theorem raw_results_raises_on_4xx_5xx:
  assumes "\<And>req. server w req = Inr resp"
  shows "(200 \<le> status resp \<and> status resp < 300 \<longrightarrow>
            fst (raw_results self q m w) = response_json resp
            \<and> (payload resp = Some j \<longrightarrow> fst (raw_results self q m w) = Inr j))
       \<and> (400 \<le> status resp \<and> status resp < 600 \<longrightarrow>
            (\<exists>msg. fst (raw_results self q m w) = Inl (HTTPError msg (status resp))
                  \<and> fst (results self q m w) = Inl (HTTPError msg (status resp))))"
proof -
  have raw: "fst (raw_results self q m w) =
      (case raise_for_status resp of Some e \<Rightarrow> Inl e | None \<Rightarrow> response_json resp)"
    by (rule raw_results_replied [OF assms])
  have a: "\<exists>msg. fst (raw_results self q m w) = Inl (HTTPError msg (status resp))
                  \<and> fst (results self q m w) = Inl (HTTPError msg (status resp))"
    if "400 \<le> status resp \<and> status resp < 600"
  proof -
    from that obtain e where e: "raise_for_status resp = Some e"
      using raise_for_status_None_iff [of resp] by (cases "raise_for_status resp") auto
    from raise_for_status_carries_status [OF e] obtain msg
      where "e = HTTPError msg (status resp)" by blast
    with e raw have "fst (raw_results self q m w) = Inl (HTTPError msg (status resp))"
      by simp
    then show ?thesis by (auto simp add: results_fst)
  qed
  have b: "fst (raw_results self q m w) = response_json resp"
    if "200 \<le> status resp \<and> status resp < 300"
    using that raw raise_for_status_None_iff [of resp] by simp
  have c: "fst (raw_results self q m w) = Inr j"
    if "200 \<le> status resp \<and> status resp < 300" "payload resp = Some j"
    using that b by (simp add: response_json_def)
  from a b c show ?thesis by blast
qed

theorem raw_results_raises_on_4xx_5xx_witness:
  "fst (raw_results example_client ''q'' Omitted
          (fresh_world (replying (reply 404 ''Not Found'' (Some two_hits)))))
     = Inl (HTTPError ''404 Client Error: Not Found for url: https://api.dabomai.com/search'' 404)
   \<and> fst (results example_client ''q'' Omitted
          (fresh_world (replying (reply 404 ''Not Found'' (Some two_hits)))))
     = Inl (HTTPError ''404 Client Error: Not Found for url: https://api.dabomai.com/search'' 404)
   \<and> fst (raw_results example_client ''q'' Omitted
          (fresh_world (replying (reply 201 ''Created'' (Some two_hits)))))
     = Inr two_hits"
proof -
  have "fst (raw_results example_client ''q'' Omitted
          (fresh_world (replying (reply 201 ''Created'' (Some two_hits)))))
     = Inr two_hits"
    using raw_results_raises_on_4xx_5xx
      [where w = "fresh_world (replying (reply 201 ''Created'' (Some two_hits)))"
         and resp = "reply 201 ''Created'' (Some two_hits)" and j = two_hits
         and self = example_client and q = "''q''" and m = Omitted]
    by (simp add: response_json_def)
  moreover have "\<exists>msg. fst (raw_results example_client ''q'' Omitted
          (fresh_world (replying (reply 404 ''Not Found'' (Some two_hits)))))
        = Inl (HTTPError msg 404)
      \<and> fst (results example_client ''q'' Omitted
          (fresh_world (replying (reply 404 ''Not Found'' (Some two_hits)))))
        = Inl (HTTPError msg 404)"
    using raw_results_raises_on_4xx_5xx
      [where w = "fresh_world (replying (reply 404 ''Not Found'' (Some two_hits)))"
         and resp = "reply 404 ''Not Found'' (Some two_hits)" and j = two_hits
         and self = example_client and q = "''q''" and m = Omitted]
    by simp
  moreover have "fst (raw_results example_client ''q'' Omitted
          (fresh_world (replying (reply 404 ''Not Found'' (Some two_hits)))))
     = Inl (HTTPError ''404 Client Error: Not Found for url: https://api.dabomai.com/search'' 404)"
    by (simp add: eval_defs str_int_def str_nat.simps str_opt_def)
  ultimately show ?thesis by auto
qed

text \<open>
  The statement with every status outside 2xx in place of 400 to 599 fails: a response
  with status 300 (which the requests library does not follow as a redirect) and a JSON body
  raises nothing, and its body is returned.
\<close>

theorem raw_results_redirect_counterexample:
  "status (reply 300 ''Multiple Choices'' (Some two_hits)) = 300
   \<and> fst (raw_results example_client ''q'' Omitted
          (fresh_world (replying (reply 300 ''Multiple Choices'' (Some two_hits)))))
       = Inr two_hits"
  by (simp add: eval_defs)

subsection \<open>Malformed responses\<close>

text \<open>
  Claim C6. For a status-200 response whose body is a JSON object of the data model's shape,
  \<open>results\<close> and \<open>results_async\<close> fail with a \<open>KeyError\<close> (the code's malformed-response
  error) exactly when the object has no \<open>results\<close> field or some record of the list lacks
  \<open>url\<close> or \<open>content\<close>; in every other case they return a cleaned list.
\<close>

theorem malformed_response_key_error:
  assumes "\<And>req. server w req = Inr resp"
    and "status resp = 200"
    and "payload resp = Some (JObj obj)"
    and "results_shape obj"
  shows "((\<exists>k. fst (results self q m w) = Inl (KeyError k)) \<longleftrightarrow> lacks_expected_fields obj)
       \<and> ((\<exists>ys. fst (results self q m w) = Inr ys) \<longleftrightarrow> \<not> lacks_expected_fields obj)
       \<and> ((\<exists>k. fst (results_async self q m w) = Inl (KeyError k)) \<longleftrightarrow> lacks_expected_fields obj)
       \<and> ((\<exists>ys. fst (results_async self q m w) = Inr ys) \<longleftrightarrow> \<not> lacks_expected_fields obj)"
proof -
  have sync: "fst (raw_results self q m w) = Inr (JObj obj)"
    using assms(2,3) raw_results_replied [OF assms(1)]
    by (simp add: raise_for_status_def response_json_def)
  have async: "fst (raw_results_async self q m w) = Inr (JObj obj)"
    using assms(2,3) raw_results_async_replied [OF assms(1)]
    by (simp add: response_json_def)
  show ?thesis
    using getitem_results_clean [OF assms(4)]
    by (simp add: results_fst results_async_fst sync async)
qed

theorem malformed_response_key_error_witness:
  "(\<exists>k. fst (results example_client ''q'' Omitted
            (fresh_world (replying (reply 200 ''OK'' (Some (JObj [(''query'', JStr ''q'')]))))))
          = Inl (KeyError k))
   \<and> (\<exists>k. fst (results_async example_client ''q'' Omitted
            (fresh_world (replying (reply 200 ''OK'' (Some (JObj [(''query'', JStr ''q'')]))))))
          = Inl (KeyError k))
   \<and> fst (results example_client ''q'' Omitted
            (fresh_world (replying (reply 200 ''OK''
               (Some (JObj [(''results'', JArr [JObj [(''content'', JStr ''c'')]])]))))))
          = Inl (KeyError ''url'')
   \<and> fst (results example_client ''q'' Omitted
            (fresh_world (replying (reply 200 ''OK'' (Some (JObj [(''query'', JStr ''q'')]))))))
          = Inl (KeyError ''results'')"
proof -
  let ?w = "fresh_world (replying (reply 200 ''OK'' (Some (JObj [(''query'', JStr ''q'')]))))"
  have shape: "results_shape [(''query'', JStr ''q'')]"
    by (simp add: results_shape_def)
  have lacks: "lacks_expected_fields [(''query'', JStr ''q'')]"
    by (simp add: lacks_expected_fields_def)
  have "(\<exists>k. fst (results example_client ''q'' Omitted ?w) = Inl (KeyError k))
      \<and> (\<exists>k. fst (results_async example_client ''q'' Omitted ?w) = Inl (KeyError k))"
    using malformed_response_key_error
      [of ?w "reply 200 ''OK'' (Some (JObj [(''query'', JStr ''q'')]))" "[(''query'', JStr ''q'')]"
          example_client "''q''" Omitted] shape lacks
    by simp
  moreover have "fst (results example_client ''q'' Omitted
            (fresh_world (replying (reply 200 ''OK''
               (Some (JObj [(''results'', JArr [JObj [(''content'', JStr ''c'')]])]))))))
          = Inl (KeyError ''url'')"
    by (simp add: eval_defs)
  moreover have "fst (results example_client ''q'' Omitted ?w) = Inl (KeyError ''results'')"
    by (simp add: eval_defs)
  ultimately show ?thesis by simp
qed

subsection \<open>The credential\<close>

text \<open>
  Claim C7. Constructing the client with a (non-empty) \<open>dabom_api_key\<close> argument succeeds with
  that key, whatever the environment holds: the argument takes precedence. With no argument
  and a (non-empty) \<open>DABOM_API_KEY\<close> in the environment it succeeds with the environment's
  value. With neither, it fails with a validation error wrapping the \<open>ValueError\<close> of the
  lookup.
\<close>

theorem credential_from_argument_or_environment:
  "(k \<noteq> [] \<longrightarrow> DabomSearchAPIWrapper_init (Given k) environ = Inr \<lparr>dabom_api_key = k\<rparr>)
   \<and> (environ ''DABOM_API_KEY'' = Some v \<and> v \<noteq> [] \<longrightarrow>
        DabomSearchAPIWrapper_init Omitted environ = Inr \<lparr>dabom_api_key = v\<rparr>)
   \<and> (environ ''DABOM_API_KEY'' = None \<longrightarrow>
        (\<exists>msg. DabomSearchAPIWrapper_init Omitted environ
                 = Inl (ValidationError (ValueError msg))))"
  by (simp add: DabomSearchAPIWrapper_init_def validate_environment_def
      get_from_dict_or_env_def get_from_env_def)

theorem credential_from_argument_or_environment_witness:
  "DabomSearchAPIWrapper_init (Given ''abc'') [''DABOM_API_KEY'' \<mapsto> ''xyz'']
     = Inr \<lparr>dabom_api_key = ''abc''\<rparr>
   \<and> DabomSearchAPIWrapper_init (Given ''abc'') Map.empty = Inr \<lparr>dabom_api_key = ''abc''\<rparr>
   \<and> DabomSearchAPIWrapper_init Omitted [''DABOM_API_KEY'' \<mapsto> ''xyz'']
     = Inr \<lparr>dabom_api_key = ''xyz''\<rparr>
   \<and> (\<exists>msg. DabomSearchAPIWrapper_init Omitted Map.empty
              = Inl (ValidationError (ValueError msg)))"
  using credential_from_argument_or_environment
      [where k = "''abc''" and environ = "[''DABOM_API_KEY'' \<mapsto> ''xyz'']" and v = "''xyz''"]
    credential_from_argument_or_environment
      [where k = "''abc''" and environ = Map.empty and v = "''xyz''"]
  by simp

subsection \<open>The default of max_results\<close>

text \<open>
  Claim C8. Each of the four client operations called without \<open>max_results\<close> behaves as when
  called with 5, and the body it sends carries \<open>max_results = 5\<close>. A tool constructed without
  \<open>max_results\<close> has \<open>max_results = 5\<close>, and such a tool sends \<open>max_results = 5\<close>.
\<close>

theorem omitted_max_results_is_five:
  "raw_results self q Omitted w = raw_results self q (Given (Some 5)) w
   \<and> results self q Omitted w = results self q (Given (Some 5)) w
   \<and> raw_results_async self q Omitted w = raw_results_async self q (Given (Some 5)) w
   \<and> results_async self q Omitted w = results_async self q (Given (Some 5)) w
   \<and> map_of (json_body (last (sent (snd (raw_results self q Omitted w))))) ''max_results''
       = Some (JInt 5)
   \<and> map_of (json_body (last (sent (snd (results self q Omitted w))))) ''max_results''
       = Some (JInt 5)
   \<and> map_of (json_body (last (sent (snd (raw_results_async self q Omitted w))))) ''max_results''
       = Some (JInt 5)
   \<and> map_of (json_body (last (sent (snd (results_async self q Omitted w))))) ''max_results''
       = Some (JInt 5)
   \<and> DabomSearchResults_init (Given a) Omitted environ
       = Inr \<lparr>name = ''tavily_search_results_json'', api_wrapper = a, max_results = 5\<rparr>
   \<and> (DabomSearchResults_init wrapper_arg Omitted environ = Inr t \<longrightarrow> max_results t = 5)
   \<and> (max_results t = 5 \<longrightarrow>
        map_of (json_body (last (sent (snd (run py_repr t q w))))) ''max_results''
          = Some (JInt 5)
        \<and> map_of (json_body (last (sent (snd (arun py_repr t q w))))) ''max_results''
          = Some (JInt 5))"
proof -
  have tool: "max_results t = 5" if "DabomSearchResults_init wrapper_arg Omitted environ = Inr t"
    using that by (auto simp add: DabomSearchResults_init_def split: sum.splits)
  show ?thesis
    using tool
    by (simp add: omitted_is_five [symmetric] sent_max_results run_snd arun_snd json_of_max_def
        DabomSearchResults_init_def)
qed

theorem omitted_max_results_is_five_witness:
  "DabomSearchResults_init Omitted Omitted [''DABOM_API_KEY'' \<mapsto> ''secret''] = Inr example_tool
   \<and> max_results example_tool = 5
   \<and> json_body (last (sent (snd (run class_name example_tool ''q''
        (fresh_world (replying (reply 200 ''OK'' (Some two_hits))))))))
       = [(''query'', JStr ''q''), (''max_results'', JInt 5)]
   \<and> json_body (last (sent (snd (raw_results example_client ''q'' Omitted
        (fresh_world (replying (reply 200 ''OK'' (Some two_hits))))))))
       = [(''query'', JStr ''q''), (''max_results'', JInt 5)]"
proof -
  have init: "DabomSearchResults_init Omitted Omitted [''DABOM_API_KEY'' \<mapsto> ''secret'']
      = Inr example_tool"
    by (simp add: DabomSearchResults_init_def DabomSearchAPIWrapper_init_def
        validate_environment_def get_from_dict_or_env_def get_from_env_def
        example_tool_def example_client_def arg_or_def)
  have "max_results example_tool = 5"
    using omitted_max_results_is_five
      [where wrapper_arg = Omitted and environ = "[''DABOM_API_KEY'' \<mapsto> ''secret'']"
         and t = example_tool]
      init by blast
  moreover have "json_body (last (sent (snd (run class_name example_tool ''q''
        (fresh_world (replying (reply 200 ''OK'' (Some two_hits))))))))
       = [(''query'', JStr ''q''), (''max_results'', JInt 5)]"
    by (simp add: run_snd eval_defs example_tool_def)
  moreover have "json_body (last (sent (snd (raw_results example_client ''q'' Omitted
        (fresh_world (replying (reply 200 ''OK'' (Some two_hits))))))))
       = [(''query'', JStr ''q''), (''max_results'', JInt 5)]"
    by (simp add: eval_defs)
  ultimately show ?thesis using init by simp
qed

subsection \<open>No truncation\<close>

text \<open>
  Claim C9. Whatever \<open>max_results\<close> is, when the remote side answers 200 with a well-formed
  object of \<open>N\<close> records, \<open>results\<close> and \<open>results_async\<close> return all \<open>N\<close> cleaned records,
  in order, each the two fields of its raw record: \<open>max_results\<close> goes into the request body
  and nowhere else, also when \<open>N\<close> is larger than \<open>max_results\<close>.
\<close>

theorem no_local_truncation:
  assumes "\<And>req. server w req = Inr resp"
    and "status resp = 200"
    and "payload resp = Some (JObj obj)"
    and "map_of obj ''results'' = Some (JArr rs)"
    and "list_all has_url_content rs"
  shows "(\<exists>ys. fst (results self q m w) = Inr ys \<and> length ys = length rs
               \<and> list_all2 projects rs ys)
       \<and> (\<exists>ys. fst (results_async self q m w) = Inr ys \<and> length ys = length rs
               \<and> list_all2 projects rs ys)
       \<and> map_of (json_body (last (sent (snd (results self q m w))))) ''max_results''
           = Some (json_of_max (arg_or (Some 5) m))
       \<and> map_of (json_body (last (sent (snd (results_async self q m w))))) ''max_results''
           = Some (json_of_max (arg_or (Some 5) m))"
proof -
  have sync: "fst (raw_results self q m w) = Inr (JObj obj)"
    using assms(2,3) raw_results_replied [OF assms(1)]
    by (simp add: raise_for_status_def response_json_def)
  have async: "fst (raw_results_async self q m w) = Inr (JObj obj)"
    using assms(2,3) raw_results_async_replied [OF assms(1)]
    by (simp add: response_json_def)
  from cleaned_of_raw [OF assms(4,5)] obtain ys
    where ys: "(case getitem (JObj obj) ''results'' of
                  Inl e \<Rightarrow> Inl e | Inr v \<Rightarrow> clean_results v) = Inr ys"
      and p: "list_all2 projects rs ys"
    by blast
  from p have len: "length ys = length rs"
    by (simp add: list_all2_lengthD)
  have "fst (results self q m w) = Inr ys" "fst (results_async self q m w) = Inr ys"
    using ys by (simp_all add: results_fst results_async_fst sync async)
  with len p show ?thesis by (simp add: sent_max_results)
qed

theorem no_local_truncation_witness:
  "fst (results example_client ''q'' (Given (Some 1))
          (fresh_world (replying (reply 200 ''OK'' (Some two_hits)))))
     = Inr [[(''url'', JStr ''https://x.test''), (''content'', JStr ''hello'')],
            [(''url'', JStr ''https://y.test''), (''content'', JStr ''bye'')]]
   \<and> fst (results_async example_client ''q'' (Given (Some 1))
          (fresh_world (replying (reply 200 ''OK'' (Some two_hits)))))
     = Inr [[(''url'', JStr ''https://x.test''), (''content'', JStr ''hello'')],
            [(''url'', JStr ''https://y.test''), (''content'', JStr ''bye'')]]
   \<and> map_of (json_body (last (sent (snd (results example_client ''q'' (Given (Some 1))
             (fresh_world (replying (reply 200 ''OK'' (Some two_hits))))))))) ''max_results''
       = Some (JInt 1)"
proof -
  let ?resp = "reply 200 ''OK'' (Some two_hits)"
  let ?w = "fresh_world (replying ?resp)"
  have a: "\<And>req. server ?w req = Inr ?resp" by simp
  have b: "status ?resp = 200" by simp
  have c: "payload ?resp = Some (JObj [(''results'', JArr two_records)])"
    by (simp add: two_hits_def)
  have d: "map_of [(''results'', JArr two_records)] ''results'' = Some (JArr two_records)"
    by simp
  have e: "list_all has_url_content two_records"
    by (simp add: two_records_def)
  from no_local_truncation [OF a b c d e, of example_client "''q''" "Given (Some 1)"]
  obtain ys zs where
    ys: "fst (results example_client ''q'' (Given (Some 1)) ?w) = Inr ys"
        "list_all2 projects two_records ys"
    and zs: "fst (results_async example_client ''q'' (Given (Some 1)) ?w) = Inr zs"
        "list_all2 projects two_records zs"
    and body: "map_of (json_body (last (sent (snd (results example_client ''q''
        (Given (Some 1)) ?w))))) ''max_results'' = Some (json_of_max (arg_or (Some 5) (Given (Some 1))))"
    by blast
  from ys(2) have "ys = [[(''url'', JStr ''https://x.test''), (''content'', JStr ''hello'')],
            [(''url'', JStr ''https://y.test''), (''content'', JStr ''bye'')]]"
    by (auto simp add: two_records_def list_all2_Cons1)
  moreover from zs(2) have "zs = [[(''url'', JStr ''https://x.test''), (''content'', JStr ''hello'')],
            [(''url'', JStr ''https://y.test''), (''content'', JStr ''bye'')]]"
    by (auto simp add: two_records_def list_all2_Cons1)
  ultimately show ?thesis using ys(1) zs(1) body by (simp add: json_of_max_def)
qed

subsection \<open>No validation of max_results\<close>

text \<open>
  Claim C10. For every \<open>max_results\<close> of type \<open>Optional[int]\<close> (zero, negative and \<open>None\<close>
  included) \<open>raw_results\<close> and \<open>raw_results_async\<close> write it unchanged into the request
  body (\<open>None\<close> as JSON null), and raise nothing of their own: when the remote side answers
  200 with a JSON body, they return that body.
\<close>

theorem max_results_forwarded_unchecked:
  "map_of (json_body (last (sent (snd (raw_results self q (Given m) w))))) ''max_results''
     = Some (case m of None \<Rightarrow> JNull | Some n \<Rightarrow> JInt n)
   \<and> map_of (json_body (last (sent (snd (raw_results_async self q (Given m) w))))) ''max_results''
     = Some (case m of None \<Rightarrow> JNull | Some n \<Rightarrow> JInt n)
   \<and> ((\<forall>req. server w req = Inr resp) \<and> status resp = 200 \<and> payload resp = Some j \<longrightarrow>
        fst (raw_results self q (Given m) w) = Inr j
        \<and> fst (raw_results_async self q (Given m) w) = Inr j)"
proof -
  have "fst (raw_results self q (Given m) w) = Inr j
        \<and> fst (raw_results_async self q (Given m) w) = Inr j"
    if "\<forall>req. server w req = Inr resp" "status resp = 200" "payload resp = Some j"
  proof -
    from that(1) have srv: "\<And>req. server w req = Inr resp" by simp
    show ?thesis
      using that(2,3) raw_results_replied [OF srv] raw_results_async_replied [OF srv]
      by (simp add: raise_for_status_def response_json_def)
  qed
  then show ?thesis
    by (simp add: sent_max_results json_of_max_def)
qed

theorem max_results_forwarded_unchecked_witness:
  "map_of (json_body (last (sent (snd (raw_results example_client ''q'' (Given (Some 0))
       (fresh_world (replying (reply 200 ''OK'' (Some two_hits))))))))) ''max_results''
     = Some (JInt 0)
   \<and> fst (raw_results example_client ''q'' (Given (Some 0))
       (fresh_world (replying (reply 200 ''OK'' (Some two_hits))))) = Inr two_hits
   \<and> map_of (json_body (last (sent (snd (raw_results_async example_client ''q'' (Given (Some (- 3)))
       (fresh_world (replying (reply 200 ''OK'' (Some two_hits))))))))) ''max_results''
     = Some (JInt (- 3))
   \<and> fst (raw_results_async example_client ''q'' (Given (Some (- 3)))
       (fresh_world (replying (reply 200 ''OK'' (Some two_hits))))) = Inr two_hits
   \<and> map_of (json_body (last (sent (snd (raw_results example_client ''q'' (Given None)
       (fresh_world (replying (reply 200 ''OK'' (Some two_hits))))))))) ''max_results''
     = Some JNull
   \<and> fst (raw_results example_client ''q'' (Given None)
       (fresh_world (replying (reply 200 ''OK'' (Some two_hits))))) = Inr two_hits"
  using max_results_forwarded_unchecked
      [where self = example_client and q = "''q''" and m = "Some 0"
         and w = "fresh_world (replying (reply 200 ''OK'' (Some two_hits)))"
         and resp = "reply 200 ''OK'' (Some two_hits)" and j = two_hits]
    max_results_forwarded_unchecked
      [where self = example_client and q = "''q''" and m = "Some (- 3)"
         and w = "fresh_world (replying (reply 200 ''OK'' (Some two_hits)))"
         and resp = "reply 200 ''OK'' (Some two_hits)" and j = two_hits]
    max_results_forwarded_unchecked
      [where self = example_client and q = "''q''" and m = None
         and w = "fresh_world (replying (reply 200 ''OK'' (Some two_hits)))"
         and resp = "reply 200 ''OK'' (Some two_hits)" and j = two_hits]
  by simp

end
